theory Spec2Isabelle
  imports Main "HOL-Library.Word"
begin

unbundle bit_operations_syntax

section \<open>The emulator core of \<^verbatim>\<open>include/core.hpp\<close>\<close>

text \<open>
  The header declares the class \<^verbatim>\<open>Core\<close>, its data members, the two inline register
  accessors \<^verbatim>\<open>GPZR\<close> and \<^verbatim>\<open>GPSP\<close> and the breakpoint constants. The bodies of all
  other member functions, the register types of \<^verbatim>\<open>register.hpp\<close> and the integer
  aliases of \<^verbatim>\<open>arm.hpp\<close> are outside the header.
\<close>

subsection \<open>Machine integers\<close>

type_synonym u8 = "8 word"
type_synonym u32 = "32 word"
type_synonym u64 = "64 word"

text \<open>\<^verbatim>\<open>addr_t\<close> comes from \<^verbatim>\<open>arm.hpp\<close>: an address has the width of a 64-bit register.\<close>

type_synonym addr_t = u64

subsection \<open>Instruction patterns\<close>

text \<open>One constructor for each \<^verbatim>\<open>INSTRUCTION_DECL\<close> of the class.\<close>

datatype InstructionHandler =
    NOP | ADD_IMMEDIATE | ADD_SHIFTED_REGISTER | ADDS_IMMEDIATE
  | SUB_IMMEDIATE | SUB_SHIFTED_REGISTER | SUBS_IMMEDIATE | SUBS_SHIFTED_REGISTER
  | SUBS_EXTENDED_REGISTER | ORR_IMMEDIATE | ORR_SHIFTED_REGISTER | MOVNZK
  | B | B_COND | BL | CCMN_IMMEDIATE | CCMN_REGISTER | SVC | ADRP
  | AND_IMMEDIATE | AND_SHIFTED_REGISTER | ANDS_IMMEDIATE | ANDS_SHIFTED_REGISTER
  | STR_IMMEDIATE | STR_REGISTER | LDR_IMMEDIATE | LDR_REGISTER | CBZ

record InstructionPattern =
  mask :: u32
  pattern :: u32
  type :: InstructionHandler
  name :: string

subsection \<open>Processor state\<close>

text \<open>
  \<^verbatim>\<open>struct PSTATE\<close>: every field is a bit field of \<^verbatim>\<open>u8\<close>; the one-bit fields are
  booleans, \<^verbatim>\<open>EL\<close> has two bits.
\<close>

record PSTATE =
  N :: bool
  Z :: bool
  C :: bool
  V :: bool
  D :: bool
  A :: bool
  I :: bool
  F :: bool
  SS :: bool
  IL :: bool
  EL :: "2 word"
  RW :: bool
  SP :: bool

subsection \<open>The core\<close>

text \<open>
  A \<^verbatim>\<open>core::RegisterDouble\<close> is held as its 64-bit value, and the register file
  \<^verbatim>\<open>core::GPRegister\<close> as the list of its registers, indexed from 0: the header fixes
  neither the number of registers nor what an index past the end does, so the length of
  the list is left open and an access past the end is \<open>None\<close>. A
  \<^verbatim>\<open>core::RegisterSingle\<close> (the program counter is one) is held as a 64-bit value, the
  width of the addresses it is compared with.
\<close>

type_synonym RegisterDouble = u64
type_synonym RegisterSingle = u64
type_synonym GPRegister = "RegisterDouble list"

text \<open>
  The data members of \<^verbatim>\<open>class Core\<close>, in the order of the header. The address space
  is a collaborator reached through a pointer; the functions that fetch take it as an
  argument. The banked system registers (\<^verbatim>\<open>ACTLR\<close> to \<^verbatim>\<open>VTTBR\<close>) are used by none
  of the functions below and are left out.
\<close>

record Core =
  m_halted :: bool
  m_broken :: bool
  m_debugMode :: bool
  m_breakpoints :: "addr_t option list"
  m_currInstruction :: InstructionPattern
  GPR :: GPRegister
  PC :: RegisterSingle
  PSTATE :: PSTATE
  FPCR :: RegisterSingle
  FPSR :: RegisterSingle

definition NumBreakpoints :: u8 where
  "NumBreakpoints = 0x10"

definition TemporarySteppingBreakpointId :: u8 where
  "TemporarySteppingBreakpointId = NumBreakpoints"

subsection \<open>Register accessors\<close>

text \<open>\<^verbatim>\<open>GPR[i]\<close>: the register at index \<open>i\<close> of the file.\<close>

definition GPR_at :: "Core \<Rightarrow> nat \<Rightarrow> RegisterDouble option" where
  "GPR_at c i = (if i < length (GPR c) then Some (GPR c ! i) else None)"

text \<open>
  \<^verbatim>\<open>GPSP(R)\<close> is \<^verbatim>\<open>GPR[R < 31 ? R : 32 + PSTATE.EL]\<close>; the sum is computed on
  \<^verbatim>\<open>int\<close> and cannot wrap.
\<close>

definition GPSP_index :: "Core \<Rightarrow> u8 \<Rightarrow> nat" where
  "GPSP_index c R = (if R < 31 then unat R else 32 + unat (EL (PSTATE c)))"

definition GPSP :: "Core \<Rightarrow> u8 \<Rightarrow> RegisterDouble option" where
  "GPSP c R = GPR_at c (GPSP_index c R)"

text \<open>\<^verbatim>\<open>GPZR(R)\<close> is \<^verbatim>\<open>GPR[R]\<close>, for every \<open>R\<close>.\<close>

definition GPZR :: "Core \<Rightarrow> u8 \<Rightarrow> RegisterDouble option" where
  "GPZR c R = GPR_at c (unat R)"

subsection \<open>Setting a breakpoint\<close>

text \<open>
  Modelled from the spec: the error conditions of its error taxonomy; the header
  declares no error type.
\<close>

datatype error =
    UndefinedEncoding | InvalidImmediateEncoding | MemoryFault
  | BreakpointSlotExhaustion | InvalidBreakpointId

text \<open>
  The table \<^verbatim>\<open>std::array<std::optional<addr_t>, NumBreakpoints + 1>\<close> has a fixed
  size, which a list does not: \<open>breakpoints_sized\<close> says that the list has it.
\<close>

definition breakpoints_sized :: "Core \<Rightarrow> bool" where
  "breakpoints_sized c = (length (m_breakpoints c) = unat NumBreakpoints + 1)"

text \<open>The index of the first empty slot of \<open>bs\<close>, counted from \<open>i\<close>.\<close>

fun first_free :: "nat \<Rightarrow> addr_t option list \<Rightarrow> nat option" where
  "first_free i [] = None"
| "first_free i (None # bs) = Some i"
| "first_free i (Some a # bs) = first_free (Suc i) bs"

text \<open>
  Modelled from the spec: the body of \<^verbatim>\<open>Core::setBreakpoint\<close>, of which the header
  has the declaration \<^verbatim>\<open>u8 setBreakpoint(addr_t address)\<close> only. The spec: it
  "assigns the given address to the first free slot among the user slots; fails (no free
  slot) when all user slots are occupied; returns the assigned slot id", and the failure
  is "reported, not fatal". The user slots are the first \<open>NumBreakpoints\<close> ones. The
  result is the id or the error, and the core after the call.
\<close>

definition setBreakpoint :: "Core \<Rightarrow> addr_t \<Rightarrow> (error + u8) \<times> Core" where
  "setBreakpoint c address =
     (case first_free 0 (take (unat NumBreakpoints) (m_breakpoints c)) of
        None \<Rightarrow> (Inl BreakpointSlotExhaustion, c)
      | Some i \<Rightarrow>
          (Inr (of_nat i), c\<lparr>m_breakpoints := (m_breakpoints c)[i := Some address]\<rparr>))"

subsection \<open>Example data\<close>

definition pstate0 :: PSTATE where
  "pstate0 = \<lparr>N = False, Z = False, C = False, V = False, D = False, A = False,
     I = False, F = False, SS = False, IL = False, EL = 0, RW = False, SP = False\<rparr>"

definition nop_pattern :: InstructionPattern where
  "nop_pattern = \<lparr>mask = 0xFFFFFFFF, pattern = 0xD503201F, type = NOP, name = ''NOP''\<rparr>"

text \<open>A core whose register \<open>i\<close> holds the value \<open>i\<close>, with 36 registers.\<close>

definition core36 :: Core where
  "core36 = \<lparr>m_halted = False, m_broken = False, m_debugMode = False,
     m_breakpoints = replicate 17 None, m_currInstruction = nop_pattern,
     GPR = [0, 1, 2, 3, 4, 5, 6, 7, 8, 9, 10, 11, 12, 13, 14, 15, 16, 17, 18, 19, 20,
            21, 22, 23, 24, 25, 26, 27, 28, 29, 30, 31, 32, 33, 34, 35],
     PC = 0, PSTATE = pstate0, FPCR = 0, FPSR = 0\<rparr>"

text \<open>The same core with every user breakpoint slot armed.\<close>

definition core_full :: Core where
  "core_full = core36\<lparr>m_breakpoints := replicate 16 (Some 0x4000) @ [None]\<rparr>"

section \<open>Stack-pointer banking\<close>

lemma EL_bound: "unat (e :: 2 word) \<le> 3"
  using unsigned_less [of e, where 'a = nat] by simp

lemma GPSP_index_low: "R < 31 \<Longrightarrow> GPSP_index c R = unat R"
  by (simp add: GPSP_index_def)

lemma GPSP_index_high: "31 \<le> R \<Longrightarrow> GPSP_index c R = 32 + unat (EL (PSTATE c))"
  by (simp add: GPSP_index_def not_less [symmetric])

lemma GPSP_index_RW_SP:
  "GPSP_index (c\<lparr>PSTATE := (PSTATE c)\<lparr>RW := rw, SP := sp\<rparr>\<rparr>) R = GPSP_index c R"
  by (simp add: GPSP_index_def)

text \<open>
  C1, as the code has it. For \<open>R < 31\<close>, \<^verbatim>\<open>GPSP(R)\<close> is the register \<open>GPR[R]\<close>. For
  every other \<open>R\<close> (31 and above) it is the register at index \<open>32 + EL\<close> of the current
  exception level, one of the indices 32 to 35 and never index 31. The exception level
  alone selects it: changing \<open>RW\<close> and \<open>SP\<close> changes nothing. In a register file of
  33 registers the selected register exists only at exception level 0.
\<close>

theorem GPSP_banked_at_32_plus_EL:
  "(R < 31 \<longrightarrow> GPSP c R = GPR_at c (unat R)) \<and>
   (31 \<le> R \<longrightarrow> GPSP c R = GPR_at c (32 + unat (EL (PSTATE c)))
      \<and> 32 \<le> GPSP_index c R \<and> GPSP_index c R \<le> 35) \<and>
   GPSP (c\<lparr>PSTATE := (PSTATE c)\<lparr>RW := rw, SP := sp\<rparr>\<rparr>) R = GPSP c R \<and>
   (31 \<le> R \<and> length (GPR c) = 33 \<longrightarrow> (GPSP c R \<noteq> None) = (EL (PSTATE c) = 0))"
proof -
  have low: "R < 31 \<longrightarrow> GPSP c R = GPR_at c (unat R)"
    by (simp add: GPSP_def GPSP_index_low)
  have high: "31 \<le> R \<longrightarrow> GPSP c R = GPR_at c (32 + unat (EL (PSTATE c)))
      \<and> 32 \<le> GPSP_index c R \<and> GPSP_index c R \<le> 35"
    using EL_bound [of "EL (PSTATE c)"] by (simp add: GPSP_def GPSP_index_high)
  have frame: "GPSP (c\<lparr>PSTATE := (PSTATE c)\<lparr>RW := rw, SP := sp\<rparr>\<rparr>) R = GPSP c R"
    by (simp add: GPSP_def GPSP_index_RW_SP GPR_at_def)
  have small: "31 \<le> R \<and> length (GPR c) = 33 \<longrightarrow> (GPSP c R \<noteq> None) = (EL (PSTATE c) = 0)"
    by (auto simp add: GPSP_def GPSP_index_high GPR_at_def unat_eq_0)
  from low high frame small show ?thesis by blast
qed

theorem GPSP_banked_at_32_plus_EL_witness:
  "(5 :: u8) < 31 \<and> GPSP core36 5 = Some 5 \<and>
   (31 :: u8) \<le> 31 \<and> GPSP (core36\<lparr>PSTATE := pstate0\<lparr>EL := 2\<rparr>\<rparr>) 31 = Some 34 \<and>
   length (GPR (core36\<lparr>GPR := take 33 (GPR core36)\<rparr>)) = 33 \<and>
   GPSP (core36\<lparr>GPR := take 33 (GPR core36)\<rparr>) 31 = Some 32"
  using GPSP_banked_at_32_plus_EL [of 5 core36 False False]
    GPSP_banked_at_32_plus_EL [of 31 "core36\<lparr>PSTATE := pstate0\<lparr>EL := 2\<rparr>\<rparr>" False False]
    GPSP_banked_at_32_plus_EL [of 31 "core36\<lparr>GPR := take 33 (GPR core36)\<rparr>" False False]
  by (simp add: core36_def pstate0_def GPR_at_def)

theorem GPSP_31_plus_EL_counterexample:
  "GPSP core36 31 \<noteq> GPR_at core36 (31 + unat (EL (PSTATE core36)))"
  by (simp add: GPSP_def GPSP_index_def GPR_at_def core36_def pstate0_def)

section \<open>The breakpoint table\<close>

lemma first_free_Some:
  "first_free i bs = Some k \<Longrightarrow>
     i \<le> k \<and> k - i < length bs \<and> bs ! (k - i) = None \<and> (\<forall>j < k - i. bs ! j \<noteq> None)"
proof (induction i bs rule: first_free.induct)
  case (1 i)
  then show ?case by simp
next
  case (2 i bs)
  then show ?case by simp
next
  case (3 i a bs)
  from 3 have ih: "Suc i \<le> k \<and> k - Suc i < length bs \<and> bs ! (k - Suc i) = None
      \<and> (\<forall>j < k - Suc i. bs ! j \<noteq> None)"
    by simp
  then have k: "k - i = Suc (k - Suc i)" by arith
  show ?case
  proof (intro conjI allI impI)
    show "i \<le> k" using ih by arith
    show "k - i < length (Some a # bs)" using ih k by simp
    show "(Some a # bs) ! (k - i) = None" using ih k by simp
    fix j assume "j < k - i"
    then show "(Some a # bs) ! j \<noteq> None"
      using ih k by (cases j) auto
  qed
qed

lemma first_free_None: "first_free i bs = None \<Longrightarrow> \<forall>j < length bs. bs ! j \<noteq> None"
proof (induction i bs rule: first_free.induct)
  case (3 i a bs)
  then have ih: "\<forall>j < length bs. bs ! j \<noteq> None" by simp
  show ?case
  proof (intro allI impI)
    fix j assume "j < length (Some a # bs)"
    then show "(Some a # bs) ! j \<noteq> None" using ih by (cases j) auto
  qed
qed simp_all

lemma NumBreakpoints_16: "unat NumBreakpoints = 16"
  by (simp add: NumBreakpoints_def)

text \<open>
  C5. The breakpoint table has \<open>NumBreakpoints + 1 = 17\<close> slots: 16 user slots and a
  last one, whose id is \<open>TemporarySteppingBreakpointId = 16\<close>. When a user slot is
  free, \<open>setBreakpoint\<close> stores the address in the first free user slot and returns
  its id, which is below 16 and so is not the reserved id; the reserved slot keeps its
  content. When every user slot is occupied it reports the exhaustion and leaves the
  core as it was.
\<close>

theorem setBreakpoint_first_free_user_slot:
  assumes sized: "breakpoints_sized c"
  shows "length (m_breakpoints c) = 17 \<and> unat NumBreakpoints = 16 \<and>
    unat TemporarySteppingBreakpointId = 16 \<and>
    breakpoints_sized (snd (setBreakpoint c a)) \<and>
    ((\<exists>i < 16. m_breakpoints c ! i = None) \<longrightarrow>
       (\<exists>k < 16. setBreakpoint c a =
            (Inr (of_nat k), c\<lparr>m_breakpoints := (m_breakpoints c)[k := Some a]\<rparr>) \<and>
          m_breakpoints c ! k = None \<and> (\<forall>j < k. m_breakpoints c ! j \<noteq> None) \<and>
          (of_nat k :: u8) \<noteq> TemporarySteppingBreakpointId \<and>
          unat (of_nat k :: u8) = k \<and>
          m_breakpoints (snd (setBreakpoint c a)) ! k = Some a \<and>
          m_breakpoints (snd (setBreakpoint c a)) ! 16 = m_breakpoints c ! 16)) \<and>
    ((\<forall>i < 16. m_breakpoints c ! i \<noteq> None) \<longrightarrow>
       setBreakpoint c a = (Inl BreakpointSlotExhaustion, c))"
proof -
  let ?bs = "m_breakpoints c"
  let ?us = "take (unat NumBreakpoints) ?bs"
  have len: "length ?bs = 17"
    using sized by (simp add: breakpoints_sized_def NumBreakpoints_16)
  have ulen: "length ?us = 16" using len by (simp add: NumBreakpoints_16)
  have unth: "\<And>j. j < 16 \<Longrightarrow> ?us ! j = ?bs ! j" by (simp add: NumBreakpoints_16)
  have tmp: "unat TemporarySteppingBreakpointId = 16"
    by (simp add: TemporarySteppingBreakpointId_def NumBreakpoints_def)
  have keep: "breakpoints_sized (snd (setBreakpoint c a))"
    using sized by (simp add: setBreakpoint_def breakpoints_sized_def split: option.split)
  have free: "(\<exists>i < 16. ?bs ! i = None) \<longrightarrow>
       (\<exists>k < 16. setBreakpoint c a =
            (Inr (of_nat k), c\<lparr>m_breakpoints := ?bs[k := Some a]\<rparr>) \<and>
          ?bs ! k = None \<and> (\<forall>j < k. ?bs ! j \<noteq> None) \<and>
          (of_nat k :: u8) \<noteq> TemporarySteppingBreakpointId \<and>
          unat (of_nat k :: u8) = k \<and>
          m_breakpoints (snd (setBreakpoint c a)) ! k = Some a \<and>
          m_breakpoints (snd (setBreakpoint c a)) ! 16 = ?bs ! 16)"
  proof
    assume ex: "\<exists>i < 16. ?bs ! i = None"
    then obtain i where i: "i < 16" "?bs ! i = None" by blast
    have "first_free 0 ?us \<noteq> None"
    proof
      assume "first_free 0 ?us = None"
      then have "\<forall>j < length ?us. ?us ! j \<noteq> None" by (rule first_free_None)
      then have "?us ! i \<noteq> None" using i(1) unfolding ulen by blast
      then show False using unth [OF i(1)] i(2) by simp
    qed
    then obtain k where k: "first_free 0 ?us = Some k" by blast
    from first_free_Some [OF k]
    have k16: "k < 16" and kfree: "?us ! k = None" and kleast: "\<forall>j < k. ?us ! j \<noteq> None"
      unfolding ulen by simp_all
    have un: "unat (of_nat k :: u8) = k"
      using k16 by (simp add: unat_of_nat)
    have ne: "(of_nat k :: u8) \<noteq> TemporarySteppingBreakpointId"
      using un tmp k16 by auto
    have res: "setBreakpoint c a =
        (Inr (of_nat k), c\<lparr>m_breakpoints := ?bs[k := Some a]\<rparr>)"
      using k by (simp add: setBreakpoint_def)
    have "?bs ! k = None" using kfree unth k16 by simp
    moreover have "\<forall>j < k. ?bs ! j \<noteq> None" using kleast unth k16 by simp
    moreover have "m_breakpoints (snd (setBreakpoint c a)) ! k = Some a"
      using res len k16 by simp
    moreover have "m_breakpoints (snd (setBreakpoint c a)) ! 16 = ?bs ! 16"
      using res k16 by simp
    ultimately show "\<exists>k < 16. setBreakpoint c a =
            (Inr (of_nat k), c\<lparr>m_breakpoints := ?bs[k := Some a]\<rparr>) \<and>
          ?bs ! k = None \<and> (\<forall>j < k. ?bs ! j \<noteq> None) \<and>
          (of_nat k :: u8) \<noteq> TemporarySteppingBreakpointId \<and>
          unat (of_nat k :: u8) = k \<and>
          m_breakpoints (snd (setBreakpoint c a)) ! k = Some a \<and>
          m_breakpoints (snd (setBreakpoint c a)) ! 16 = ?bs ! 16"
      using k16 res un ne by blast
  qed
  have full: "(\<forall>i < 16. ?bs ! i \<noteq> None) \<longrightarrow>
       setBreakpoint c a = (Inl BreakpointSlotExhaustion, c)"
  proof
    assume all: "\<forall>i < 16. ?bs ! i \<noteq> None"
    have "first_free 0 ?us = None"
    proof (cases "first_free 0 ?us")
      case (Some k)
      from first_free_Some [OF Some]
      have "k < 16" and "?us ! k = None" unfolding ulen by simp_all
      then show ?thesis using unth [of k] all by simp
    qed simp
    then show "setBreakpoint c a = (Inl BreakpointSlotExhaustion, c)"
      by (simp add: setBreakpoint_def)
  qed
  from len NumBreakpoints_16 tmp keep free full show ?thesis by blast
qed

theorem setBreakpoint_first_free_user_slot_witness:
  "breakpoints_sized core36 \<and> m_breakpoints core36 ! 0 = None \<and>
   fst (setBreakpoint core36 0x1000) = Inr 0 \<and>
   breakpoints_sized core_full \<and>
   setBreakpoint core_full 0x1000 = (Inl BreakpointSlotExhaustion, core_full)"
proof -
  have s1: "breakpoints_sized core36"
    by (simp add: breakpoints_sized_def core36_def NumBreakpoints_def)
  have z1: "m_breakpoints core36 ! 0 = None"
    by (simp add: core36_def)
  then have e1: "\<exists>i < 16. m_breakpoints core36 ! i = None"
    by (intro exI [of _ 0]) simp
  from setBreakpoint_first_free_user_slot [OF s1, of "0x1000"] e1
  obtain k where k: "setBreakpoint core36 0x1000 =
      (Inr (of_nat k), core36\<lparr>m_breakpoints := (m_breakpoints core36)[k := Some 0x1000]\<rparr>)"
    and least: "\<forall>j < k. m_breakpoints core36 ! j \<noteq> None"
    by blast
  from least z1 have "k = 0" by (cases k) auto
  with k have r1: "fst (setBreakpoint core36 0x1000) = Inr 0" by simp
  have s2: "breakpoints_sized core_full"
    by (simp add: breakpoints_sized_def core_full_def core36_def NumBreakpoints_def)
  have a2: "\<forall>i < 16. m_breakpoints core_full ! i \<noteq> None"
    by (simp add: core_full_def core36_def nth_append)
  from setBreakpoint_first_free_user_slot [OF s2, of "0x1000"] a2
  have r2: "setBreakpoint core_full 0x1000 = (Inl BreakpointSlotExhaustion, core_full)"
    by blast
  from s1 z1 r1 s2 r2 show ?thesis by blast
qed

end
